theory Spec2Isabelle
  imports Complex_Main "HOL-Library.Signed_Division"
begin

section \<open>Numbers, instants and strings of the host language\<close>

text \<open>
  The service of \<^verbatim>\<open>app.service.ts\<close> computes on JavaScript numbers that hold
  integers far below \<open>2 ^ 53\<close>, where \<^verbatim>\<open>+\<close>, \<^verbatim>\<open>-\<close>, \<^verbatim>\<open>*\<close> and \<^verbatim>\<open>%\<close> are exact; they are
  modelled as \<open>int\<close>.  The remainder \<^verbatim>\<open>%\<close> takes the sign of the dividend: it is
  \<open>smod\<close>, not the flooring \<open>mod\<close> of HOL.  \<^verbatim>\<open>Math.floor(a / 1000)\<close> is \<open>a div 1000\<close>.

  Only \<^verbatim>\<open>Math.ceil(timeLimit / timeSpan)\<close> can leave the integers, when the divisor is zero;
  the type \<open>jsnum\<close> keeps these cases.
\<close>

datatype jsnum = Finite int | PosInfinity | NegInfinity | NaN

text \<open>\<^verbatim>\<open>Math.ceil(a / b)\<close> on integers \<open>a\<close>, \<open>b\<close>.\<close>

definition js_ceil_div :: "int \<Rightarrow> int \<Rightarrow> jsnum" where
  "js_ceil_div a b =
     (if b = 0 then (if 0 < a then PosInfinity else if a < 0 then NegInfinity else NaN)
      else Finite (- ((- a) div b)))"

text \<open>\<^verbatim>\<open>a % b\<close> on integers: \<open>NaN\<close> for a zero divisor.\<close>

definition js_rem :: "int \<Rightarrow> int \<Rightarrow> jsnum" where
  "js_rem a b = (if b = 0 then NaN else Finite (a smod b))"

text \<open>\<^verbatim>\<open>i < n\<close> for an integer \<open>i\<close>.\<close>

fun js_less :: "int \<Rightarrow> jsnum \<Rightarrow> bool" where
  "js_less i (Finite n) = (i < n)"
| "js_less i PosInfinity = True"
| "js_less i NegInfinity = False"
| "js_less i NaN = False"

text \<open>\<^verbatim>\<open>i === n - 1\<close> for an integer \<open>i\<close>.\<close>

fun js_is_pred :: "int \<Rightarrow> jsnum \<Rightarrow> bool" where
  "js_is_pred i (Finite n) = (i = n - 1)"
| "js_is_pred i PosInfinity = False"
| "js_is_pred i NegInfinity = False"
| "js_is_pred i NaN = False"

text \<open>
  A \<^verbatim>\<open>dayjs.Dayjs\<close> value is an instant with millisecond precision; \<open>valueOf\<close> is its
  count of milliseconds since the epoch.  \<^verbatim>\<open>add(n, "second")\<close> and \<^verbatim>\<open>add(n, "hour")\<close>
  add \<open>n\<close> times the unit's milliseconds.  \<^verbatim>\<open>toISOString()\<close> renders the instant in UTC;
  the records below keep the instant that is rendered.
\<close>

datatype Dayjs = Dayjs (valueOf: int)

definition add_second :: "Dayjs \<Rightarrow> int \<Rightarrow> Dayjs" where
  "add_second t n = Dayjs (valueOf t + n * 1000)"

definition add_hour :: "Dayjs \<Rightarrow> int \<Rightarrow> Dayjs" where
  "add_hour t n = Dayjs (valueOf t + n * 3600000)"

text \<open>\<^verbatim>\<open>Number.prototype.toString()\<close> on an integer, and \<^verbatim>\<open>padStart\<close>.\<close>

function digits :: "nat \<Rightarrow> string" where
  "digits n =
     (if n < 10 then [''0123456789'' ! n]
      else digits (n div 10) @ [''0123456789'' ! (n mod 10)])"
  by pat_completeness auto
termination
  by (relation "measure id") auto

declare digits.simps [simp del]

definition toString :: "int \<Rightarrow> string" where
  "toString k = (if k < 0 then CHR ''-'' # digits (nat (- k)) else digits (nat k))"

definition padStart :: "string \<Rightarrow> nat \<Rightarrow> char \<Rightarrow> string" where
  "padStart s n c = replicate (n - length s) c @ s"

section \<open>The seeded generator\<close>

text \<open>
  \<^verbatim>\<open>rand_r\<close> is imported from \<^verbatim>\<open>./utilities/rand-r\<close>; the service reads the field
  \<^verbatim>\<open>random\<close> of what it returns and nothing else.  The generator is a parameter
  \<open>rand_r\<close> of every function below.
\<close>

record rand_r_result =
  random :: int

type_synonym generator = "int \<Rightarrow> rand_r_result"

text \<open>
  Modelled from the spec: \<^verbatim>\<open>utilities/rand-r\<close> is missing.  The specification describes
  the generator as one step of a linear congruential generator with 32-bit wrap-around,
  returning an unsigned 32-bit value, and does not give its multiplier and increment; the
  sample below takes those of the sample \<^verbatim>\<open>rand\<close> of ISO C.  It serves evaluations on
  concrete inputs only: every general theorem is about an arbitrary \<open>rand_r\<close>.
\<close>

definition sample_rand_r :: generator where
  "sample_rand_r seed = \<lparr> random = (seed * 1103515245 + 12345) mod 4294967296 \<rparr>"

section \<open>The service\<close>

datatype DamPreciseScoringTotalScoreType = Normal | Quadruple | Hundred

definition damPreciseScoringTotalScoreRandomizeThreshold :: int where
  "damPreciseScoringTotalScoreRandomizeThreshold = 99000"

definition damPreciseScoringTotalScore100PointsThreshold :: int where
  "damPreciseScoringTotalScore100PointsThreshold = 99990"

definition damPreciseScoringTotalScore100PointsProbability :: int where
  "damPreciseScoringTotalScore100PointsProbability = 500"

subsection \<open>\<^verbatim>\<open>totalScoreByDamPreciseScoringFromTime\<close>\<close>

text \<open>Line 49: \<^verbatim>\<open>const randomValue = rand_r(time).random + time\<close>, an addition of numbers.\<close>

definition randomValue :: "generator \<Rightarrow> int \<Rightarrow> int" where
  "randomValue rand_r time = random (rand_r time) + time"

text \<open>
  The optional parameter \<^verbatim>\<open>rawScore = 99999\<close> is an \<open>int option\<close>.  Both remainders have a
  positive divisor: the first is taken only when \<open>99000 < rawScore\<close>.
\<close>

definition totalScoreByDamPreciseScoringFromTime :: "generator \<Rightarrow> int \<Rightarrow> int option \<Rightarrow> int" where
  "totalScoreByDamPreciseScoringFromTime rand_r time rawScoreArg =
     (let rawScore = (case rawScoreArg of None \<Rightarrow> 99999 | Some r \<Rightarrow> r);
          result = rawScore
      in if damPreciseScoringTotalScoreRandomizeThreshold < result then
           let rv = randomValue rand_r time;
               result = (rv smod (rawScore - damPreciseScoringTotalScoreRandomizeThreshold))
                          + damPreciseScoringTotalScoreRandomizeThreshold
           in if damPreciseScoringTotalScore100PointsThreshold < result then
                let judgement = rv smod 1000
                in if judgement < damPreciseScoringTotalScore100PointsProbability
                   then 100000 else result
              else result
         else result)"

subsection \<open>\<^verbatim>\<open>predictDamPreciseScoringTotalScore\<close>\<close>

text \<open>The records of \<^verbatim>\<open>app.dto\<close>, as the service builds them.\<close>

record DamPreciseScoringTotalScorePrediction =
  time :: Dayjs
  scoreInteger :: int
  scoreString :: string
  scoreType :: DamPreciseScoringTotalScoreType

record DamPreciseScoringTotalScoreCount =
  hundredCount :: nat
  quadrupleCount :: nat

record DamPreciseScoringTotalScorePredictionCount =
  startTime :: Dayjs
  endTime :: Dayjs
  utc :: DamPreciseScoringTotalScoreCount
  jst :: DamPreciseScoringTotalScoreCount

text \<open>Lines 98 to 108, the choice of \<^verbatim>\<open>scoreType\<close>.\<close>

definition scoreTypeOf :: "int \<Rightarrow> DamPreciseScoringTotalScoreType" where
  "scoreTypeOf score =
     (if score = 100000 then Hundred
      else if damPreciseScoringTotalScore100PointsThreshold < score \<and> score \<noteq> 100000
           then Quadruple
      else Normal)"

text \<open>Lines 85 to 91: the instant of second \<open>i\<close> and the Unix time that seeds its score.\<close>

definition unixtimeOf :: "bool \<Rightarrow> Dayjs \<Rightarrow> int" where
  "unixtimeOf isJst t =
     (if isJst then valueOf (add_hour t 9) div 1000 else valueOf t div 1000)"

text \<open>Lines 93 to 120: the record of one second, before the filter.\<close>

definition predictionAt :: "generator \<Rightarrow> bool \<Rightarrow> Dayjs \<Rightarrow> DamPreciseScoringTotalScorePrediction" where
  "predictionAt rand_r isJst t =
     (let unixtime = unixtimeOf isJst t;
          score = totalScoreByDamPreciseScoringFromTime rand_r unixtime None;
          scoreInteger = score div 1000;
          scoreFractional = score smod 1000;
          scoreString = toString scoreInteger @ ''.'' @ padStart (toString scoreFractional) 3 CHR ''0''
      in \<lparr> time = t, scoreInteger = score, scoreString = scoreString,
           scoreType = scoreTypeOf score \<rparr>)"

text \<open>Lines 110 to 114, the filter.\<close>

definition included :: "bool \<Rightarrow> bool \<Rightarrow> bool \<Rightarrow> DamPreciseScoringTotalScoreType \<Rightarrow> bool" where
  "included includeNormal includeQuadruple include100 ty =
     ((include100 \<and> ty = Hundred) \<or> (includeQuadruple \<and> ty = Quadruple)
       \<or> (includeNormal \<and> ty = Normal))"

text \<open>The loop of lines 84 to 122, from counter \<open>i\<close> and the records pushed so far.\<close>

function predictLoop ::
  "generator \<Rightarrow> Dayjs \<Rightarrow> int \<Rightarrow> bool \<Rightarrow> bool \<Rightarrow> bool \<Rightarrow> bool \<Rightarrow> int
    \<Rightarrow> DamPreciseScoringTotalScorePrediction list \<Rightarrow> DamPreciseScoringTotalScorePrediction list"
where
  "predictLoop rand_r startTime' timeLimit isJst includeNormal includeQuadruple include100 i result =
     (if i < timeLimit then
        let p = predictionAt rand_r isJst (add_second startTime' i)
        in predictLoop rand_r startTime' timeLimit isJst includeNormal includeQuadruple include100
             (i + 1)
             (if included includeNormal includeQuadruple include100 (scoreType p)
              then result @ [p] else result)
      else result)"
  by pat_completeness auto
termination
  by (relation "measure (\<lambda>(rand_r, startTime', timeLimit, isJst, n, q, h, i, result). nat (timeLimit - i))")
     auto

declare predictLoop.simps [simp del]

text \<open>The four optional parameters default to \<^verbatim>\<open>true\<close> when the caller leaves them out.\<close>

definition orTrue :: "bool option \<Rightarrow> bool" where
  "orTrue arg = (case arg of None \<Rightarrow> True | Some b \<Rightarrow> b)"

definition predictDamPreciseScoringTotalScore ::
  "generator \<Rightarrow> Dayjs \<Rightarrow> int \<Rightarrow> bool option \<Rightarrow> bool option \<Rightarrow> bool option \<Rightarrow> bool option
    \<Rightarrow> DamPreciseScoringTotalScorePrediction list"
where
  "predictDamPreciseScoringTotalScore rand_r startTime' timeLimit isJstArg includeNormalArg
       includeQuadrupleArg include100Arg =
     predictLoop rand_r startTime' timeLimit (orTrue isJstArg) (orTrue includeNormalArg)
       (orTrue includeQuadrupleArg) (orTrue include100Arg) 0 []"

subsection \<open>\<^verbatim>\<open>countDamPreciseScoringTotalScorePrediction\<close>\<close>

record counters =
  hundredCountUtc :: nat
  quadrupleCountUtc :: nat
  hundredCountJst :: nat
  quadrupleCountJst :: nat

text \<open>Lines 161 to 183, the body of the inner loop at second \<open>j\<close> of a span.\<close>

definition countSecond :: "generator \<Rightarrow> Dayjs \<Rightarrow> int \<Rightarrow> counters \<Rightarrow> counters" where
  "countSecond rand_r localStartTime j c =
     (let timeUtc = add_second localStartTime j;
          unixtimeUtc = valueOf timeUtc div 1000;
          scoreUtc = totalScoreByDamPreciseScoringFromTime rand_r unixtimeUtc None;
          c = (if scoreUtc = 100000 then c\<lparr>hundredCountUtc := hundredCountUtc c + 1\<rparr>
               else if damPreciseScoringTotalScore100PointsThreshold < scoreUtc \<and> scoreUtc \<noteq> 100000
                    then c\<lparr>quadrupleCountUtc := quadrupleCountUtc c + 1\<rparr>
               else c);
          unixtimeJst = valueOf (add_hour timeUtc 9) div 1000;
          scoreJst = totalScoreByDamPreciseScoringFromTime rand_r unixtimeJst None
      in if scoreJst = 100000 then c\<lparr>hundredCountJst := hundredCountJst c + 1\<rparr>
         else if damPreciseScoringTotalScore100PointsThreshold < scoreJst \<and> scoreJst \<noteq> 100000
              then c\<lparr>quadrupleCountJst := quadrupleCountJst c + 1\<rparr>
         else c)"

text \<open>The inner loop of lines 160 to 184.\<close>

function countSeconds :: "generator \<Rightarrow> Dayjs \<Rightarrow> int \<Rightarrow> int \<Rightarrow> counters \<Rightarrow> counters" where
  "countSeconds rand_r localStartTime localTimeSpan j c =
     (if j < localTimeSpan
      then countSeconds rand_r localStartTime localTimeSpan (j + 1)
             (countSecond rand_r localStartTime j c)
      else c)"
  by pat_completeness auto
termination
  by (relation "measure (\<lambda>(rand_r, localStartTime, localTimeSpan, j, c). nat (localTimeSpan - j))")
     auto

declare countSeconds.simps [simp del]

text \<open>
  Lines 153 and 154: \<^verbatim>\<open>i === timeSpans - 1 && timeLimit % timeSpan ? timeLimit % timeSpan : timeSpan\<close>.
  A remainder that is \<open>0\<close> or \<open>NaN\<close> is falsy.
\<close>

definition localTimeSpanOf :: "int \<Rightarrow> int \<Rightarrow> jsnum \<Rightarrow> int \<Rightarrow> int" where
  "localTimeSpanOf timeSpan timeLimit timeSpans i =
     (case js_rem timeLimit timeSpan of
        Finite r \<Rightarrow> if js_is_pred i timeSpans \<and> r \<noteq> 0 then r else timeSpan
      | _ \<Rightarrow> timeSpan)"

text \<open>Lines 152 to 197: the record of span \<open>i\<close>.\<close>

definition countSpan ::
  "generator \<Rightarrow> Dayjs \<Rightarrow> int \<Rightarrow> int \<Rightarrow> jsnum \<Rightarrow> int \<Rightarrow> DamPreciseScoringTotalScorePredictionCount"
where
  "countSpan rand_r startTime' timeSpan timeLimit timeSpans i =
     (let localStartTime = add_second startTime' (i * timeSpan);
          localTimeSpan = localTimeSpanOf timeSpan timeLimit timeSpans i;
          c = countSeconds rand_r localStartTime localTimeSpan 0
                \<lparr> hundredCountUtc = 0, quadrupleCountUtc = 0,
                  hundredCountJst = 0, quadrupleCountJst = 0 \<rparr>
      in \<lparr> startTime = localStartTime,
           endTime = add_second localStartTime localTimeSpan,
           utc = \<lparr> hundredCount = hundredCountUtc c, quadrupleCount = quadrupleCountUtc c \<rparr>,
           jst = \<lparr> hundredCount = hundredCountJst c, quadrupleCount = quadrupleCountJst c \<rparr> \<rparr>)"

text \<open>
  The outer loop of lines 151 to 198.  Its bound \<open>timeSpans\<close> is \<open>Infinity\<close> when
  \<open>timeSpan\<close> is \<open>0\<close> and \<open>timeLimit\<close> is positive, and then the loop does not end:
  the result is \<open>None\<close>.
\<close>

partial_function (option) countLoop ::
  "generator \<Rightarrow> Dayjs \<Rightarrow> int \<Rightarrow> int \<Rightarrow> jsnum \<Rightarrow> int
    \<Rightarrow> DamPreciseScoringTotalScorePredictionCount list
    \<Rightarrow> DamPreciseScoringTotalScorePredictionCount list option"
where
  "countLoop rand_r startTime' timeSpan timeLimit timeSpans i result =
     (if js_less i timeSpans
      then countLoop rand_r startTime' timeSpan timeLimit timeSpans (i + 1)
             (result @ [countSpan rand_r startTime' timeSpan timeLimit timeSpans i])
      else Some result)"

declare countLoop.simps [code]

definition countDamPreciseScoringTotalScorePrediction ::
  "generator \<Rightarrow> Dayjs \<Rightarrow> int \<Rightarrow> int \<Rightarrow> DamPreciseScoringTotalScorePredictionCount list option"
where
  "countDamPreciseScoringTotalScorePrediction rand_r startTime' timeSpan timeLimit =
     (let timeSpans = js_ceil_div timeLimit timeSpan
      in countLoop rand_r startTime' timeSpan timeLimit timeSpans 0 [])"

section \<open>Reference definitions in the words of the specification\<close>

text \<open>
  The sum of the generated value and the Unix time as the specification describes it: both
  unsigned, the sum wrapping modulo the generator's width of 32 bits.
\<close>

definition randomValue_wrapping :: "generator \<Rightarrow> int \<Rightarrow> int" where
  "randomValue_wrapping rand_r t = (random (rand_r t) + t) mod 2 ^ 32"

text \<open>
  The tally of the whole window in one pass, as the specification describes it: every second
  \<open>0, \<dots>, timeLimit - 1\<close> after the start is seeded under one interpretation (UTC, or JST
  for \<open>isJst\<close>), its score derived and classified, and the two rare types counted.
\<close>

definition windowTally :: "generator \<Rightarrow> bool \<Rightarrow> Dayjs \<Rightarrow> int \<Rightarrow> DamPreciseScoringTotalScoreCount" where
  "windowTally rand_r isJst startTime' timeLimit =
     (let types = map (\<lambda>k. scoreTypeOf (totalScoreByDamPreciseScoringFromTime rand_r
                                 (unixtimeOf isJst (add_second startTime' k)) None))
                      [0..timeLimit - 1]
      in \<lparr> hundredCount = length (filter (\<lambda>ty. ty = Hundred) types),
           quadrupleCount = length (filter (\<lambda>ty. ty = Quadruple) types) \<rparr>)"

text \<open>For the proofs: whether second \<open>k\<close> of the window has the score type \<open>ty\<close>, as 0 or 1.\<close>

definition typeAt :: "generator \<Rightarrow> bool \<Rightarrow> Dayjs \<Rightarrow> DamPreciseScoringTotalScoreType \<Rightarrow> int \<Rightarrow> nat" where
  "typeAt rand_r isJst startTime' ty k =
     (if scoreTypeOf (totalScoreByDamPreciseScoringFromTime rand_r
                        (unixtimeOf isJst (add_second startTime' k)) None) = ty
      then 1 else 0)"

section \<open>Properties of the score\<close>

lemmas thresholds =
  damPreciseScoringTotalScoreRandomizeThreshold_def
  damPreciseScoringTotalScore100PointsThreshold_def
  damPreciseScoringTotalScore100PointsProbability_def

lemma smod_pos_range: "0 \<le> a \<Longrightarrow> 0 < b \<Longrightarrow> 0 \<le> (a::int) smod b \<and> a smod b < b"
  by (simp add: smod_mod_positive)

text \<open>
  Claim C1.  Let \<open>rawScore\<close> be the effective raw score of a call: the argument when one is
  passed, and 99999 when it is left out, as in every call the service makes itself.  For a
  seed \<open>t\<close> (a Unix time, not negative), a generator whose value is not negative, and an
  effective raw score above 99000, the score returned is in \<open>[99000, rawScore - 1]\<close> or is
  \<open>100000\<close>.
\<close>

theorem totalScore_range:
  assumes "99000 < (case rawScoreArg of None \<Rightarrow> 99999 | Some r \<Rightarrow> r)"
    and "0 \<le> t" and "0 \<le> random (rand_r t)"
  shows "(99000 \<le> totalScoreByDamPreciseScoringFromTime rand_r t rawScoreArg \<and>
          totalScoreByDamPreciseScoringFromTime rand_r t rawScoreArg
            \<le> (case rawScoreArg of None \<Rightarrow> 99999 | Some r \<Rightarrow> r) - 1)
        \<or> totalScoreByDamPreciseScoringFromTime rand_r t rawScoreArg = 100000"
proof -
  let ?rawScore = "case rawScoreArg of None \<Rightarrow> 99999 | Some r \<Rightarrow> r"
  have rv: "0 \<le> randomValue rand_r t"
    using assms by (simp add: randomValue_def)
  have "0 < ?rawScore - 99000"
    using assms by simp
  from smod_pos_range [OF rv this] show ?thesis
    by (simp add: totalScoreByDamPreciseScoringFromTime_def Let_def thresholds)
qed

theorem totalScore_range_witness:
  "(0::int) \<le> 1640995234 \<and> 0 \<le> random (sample_rand_r 1640995234)
   \<and> totalScoreByDamPreciseScoringFromTime sample_rand_r 1640995234 None = 99557
   \<and> ((99000 \<le> totalScoreByDamPreciseScoringFromTime sample_rand_r 1640995234 None \<and>
         totalScoreByDamPreciseScoringFromTime sample_rand_r 1640995234 None \<le> 99999 - 1)
        \<or> totalScoreByDamPreciseScoringFromTime sample_rand_r 1640995234 None = 100000)
   \<and> (99000::int) < 99500
   \<and> totalScoreByDamPreciseScoringFromTime sample_rand_r 1640995234 (Some 99500) = 99137
   \<and> ((99000 \<le> totalScoreByDamPreciseScoringFromTime sample_rand_r 1640995234 (Some 99500) \<and>
         totalScoreByDamPreciseScoringFromTime sample_rand_r 1640995234 (Some 99500) \<le> 99500 - 1)
        \<or> totalScoreByDamPreciseScoringFromTime sample_rand_r 1640995234 (Some 99500) = 100000)
   \<and> (0::int) \<le> 1640995261 \<and> 0 \<le> random (sample_rand_r 1640995261)
   \<and> totalScoreByDamPreciseScoringFromTime sample_rand_r 1640995261 None = 100000"
proof -
  have r: "random (sample_rand_r 1640995234) = 3682596403"
    by (simp add: sample_rand_r_def)
  have r': "random (sample_rand_r 1640995261) = 3412736946"
    by (simp add: sample_rand_r_def)
  have s: "totalScoreByDamPreciseScoringFromTime sample_rand_r 1640995234 None = 99557"
    by (simp add: totalScoreByDamPreciseScoringFromTime_def randomValue_def r thresholds
        signed_modulo_int_def)
  have s': "totalScoreByDamPreciseScoringFromTime sample_rand_r 1640995234 (Some 99500) = 99137"
    by (simp add: totalScoreByDamPreciseScoringFromTime_def randomValue_def r thresholds
        signed_modulo_int_def)
  have s'': "totalScoreByDamPreciseScoringFromTime sample_rand_r 1640995261 None = 100000"
    by (simp add: totalScoreByDamPreciseScoringFromTime_def randomValue_def r' thresholds
        signed_modulo_int_def)
  from totalScore_range [of None 1640995234 sample_rand_r]
    totalScore_range [of "Some 99500" 1640995234 sample_rand_r]
    totalScore_range [of None 1640995261 sample_rand_r]
    r r' s s' s''
  show ?thesis
    by simp
qed

text \<open>
  Claim C2 states that the sum \<open>randomValue\<close> wraps modulo \<open>2 ^ 32\<close>.  The sum of line 49
  is an addition of numbers and is not reduced: for a seed and a generated value that are
  not negative it is the exact sum, and it is the wrapped sum exactly when the exact sum is
  below \<open>2 ^ 32\<close>.
\<close>

theorem randomValue_exact_sum:
  assumes "0 \<le> t" and "0 \<le> random (rand_r t)"
  shows "randomValue rand_r t = random (rand_r t) + t
    \<and> (randomValue rand_r t = randomValue_wrapping rand_r t \<longleftrightarrow> random (rand_r t) + t < 2 ^ 32)"
proof -
  have "0 \<le> random (rand_r t) + t"
    using assms by simp
  then have "((random (rand_r t) + t) mod 2 ^ 32 = random (rand_r t) + t) \<longleftrightarrow>
      random (rand_r t) + t < 2 ^ 32"
    by (auto simp: zmod_trivial_iff)
  then show ?thesis
    by (auto simp: randomValue_def randomValue_wrapping_def)
qed

theorem randomValue_exact_sum_witness:
  "(0::int) \<le> 1640995234 \<and> 0 \<le> random (sample_rand_r 1640995234)
   \<and> randomValue sample_rand_r 1640995234 = 3682596403 + 1640995234
   \<and> randomValue sample_rand_r 1640995234 \<noteq> randomValue_wrapping sample_rand_r 1640995234"
proof -
  have r: "random (sample_rand_r 1640995234) = 3682596403"
    by (simp add: sample_rand_r_def)
  from randomValue_exact_sum [of 1640995234 sample_rand_r] show ?thesis
    unfolding r by simp
qed

text \<open>
  At the seed 1640995234 (2022-01-01T00:00:34Z) the sample generator returns 3682596403; the
  sum is 5323591637, above \<open>2 ^ 32\<close>, and the score is 99557.  The wrapped sum 1028624341
  would give the base score 99994 with judgement 341, hence the score 100000.
\<close>

theorem randomValue_not_wrapping_counterexample:
  "randomValue sample_rand_r 1640995234 = 5323591637
   \<and> randomValue_wrapping sample_rand_r 1640995234 = 1028624341
   \<and> totalScoreByDamPreciseScoringFromTime sample_rand_r 1640995234 None = 99557
   \<and> randomValue_wrapping sample_rand_r 1640995234 smod (99999 - 99000) + 99000 = 99994
   \<and> randomValue_wrapping sample_rand_r 1640995234 smod 1000 = 341"
  by (simp add: randomValue_def randomValue_wrapping_def sample_rand_r_def
      totalScoreByDamPreciseScoringFromTime_def thresholds signed_modulo_int_def)

text \<open>
  Claim C3.  A raw score of at most 99000 is returned as it is, whatever the seed and the
  generator: nothing is randomized at or below the threshold.
\<close>

theorem totalScore_below_threshold:
  "rawScore \<le> 99000 \<Longrightarrow>
     totalScoreByDamPreciseScoringFromTime rand_r t (Some rawScore) = rawScore"
  by (simp add: totalScoreByDamPreciseScoringFromTime_def Let_def thresholds)

theorem totalScore_below_threshold_witness:
  "(99000::int) \<le> 99000
   \<and> totalScoreByDamPreciseScoringFromTime sample_rand_r 1640995234 (Some 99000) = 99000"
  using totalScore_below_threshold [of 99000 sample_rand_r 1640995234] by simp

text \<open>
  Claim C9.  On scores in \<open>[0, 100000]\<close> the choice of the score type is \<open>Hundred\<close> exactly
  at 100000, \<open>Quadruple\<close> exactly strictly between 99990 and 100000, and \<open>Normal\<close> exactly at
  99990 and below; the three cases exclude each other and leave no score out.
\<close>

theorem scoreTypeOf_cases:
  assumes "0 \<le> score" and "score \<le> 100000"
  shows "(scoreTypeOf score = Hundred \<longleftrightarrow> score = 100000) \<and>
         (scoreTypeOf score = Quadruple \<longleftrightarrow> 99990 < score \<and> score < 100000) \<and>
         (scoreTypeOf score = Normal \<longleftrightarrow> score \<le> 99990)"
  using assms by (auto simp: scoreTypeOf_def thresholds)

theorem scoreTypeOf_cases_witness:
  "(0::int) \<le> 99995 \<and> (99995::int) \<le> 100000 \<and> scoreTypeOf 99995 = Quadruple
   \<and> scoreTypeOf 99995 \<noteq> Hundred \<and> scoreTypeOf 99995 \<noteq> Normal"
  using scoreTypeOf_cases [of 99995] by simp

section \<open>The loops in closed form\<close>

lemma predictLoop_closed:
  "predictLoop rand_r st timeLimit isJst n q h i result =
     result @ filter (\<lambda>p. included n q h (scoreType p))
                (map (\<lambda>k. predictionAt rand_r isJst (add_second st k)) [i..timeLimit - 1])"
proof (induction rand_r st timeLimit isJst n q h i result rule: predictLoop.induct)
  case (1 rand_r st timeLimit isJst n q h i result)
  show ?case
  proof (cases "i < timeLimit")
    case True
    then have u: "[i..timeLimit - 1] = i # [i + 1..timeLimit - 1]"
      by (simp add: upto_rec1)
    show ?thesis
      using True "1.IH" [OF True refl]
      by (subst predictLoop.simps) (simp add: u Let_def)
  next
    case False
    then show ?thesis by (subst predictLoop.simps) simp
  qed
qed

lemma countLoop_closed:
  "countLoop rand_r st timeSpan timeLimit (Finite n) i result =
     Some (result @ map (countSpan rand_r st timeSpan timeLimit (Finite n)) [i..n - 1])"
proof (induction "nat (n - i)" arbitrary: i result)
  case 0
  then show ?case by (subst countLoop.simps) simp
next
  case (Suc m)
  then have lt: "i < n" and m: "m = nat (n - (i + 1))" by auto
  have u: "[i..n - 1] = i # [i + 1..n - 1]"
    using lt by (simp add: upto_rec1)
  show ?case
    using lt Suc.hyps(1) [OF m]
    by (subst countLoop.simps) (simp add: u)
qed

lemma countLoop_not_less:
  "\<not> js_less i timeSpans \<Longrightarrow> countLoop rand_r st timeSpan timeLimit timeSpans i result = Some result"
  by (subst countLoop.simps) simp

lemma countLoop_unbounded_aux:
  assumes "countLoop rand_r st timeSpan timeLimit timeSpans i result = Some y"
  shows "timeSpans \<noteq> PosInfinity"
  by (rule countLoop.raw_induct [where P = "\<lambda>_ _ _ _ n _ _ _. n \<noteq> PosInfinity", OF _ assms])
     (auto split: if_splits)

lemma countLoop_unbounded: "countLoop rand_r st timeSpan timeLimit PosInfinity i result = None"
  using countLoop_unbounded_aux [of rand_r st timeSpan timeLimit PosInfinity i result]
  by (cases "countLoop rand_r st timeSpan timeLimit PosInfinity i result") auto


section \<open>Properties of the predictions\<close>

lemma predict_closed:
  "predictDamPreciseScoringTotalScore rand_r st timeLimit isJstArg nArg qArg hArg =
     filter (\<lambda>p. included (orTrue nArg) (orTrue qArg) (orTrue hArg) (scoreType p))
       (map (\<lambda>k. predictionAt rand_r (orTrue isJstArg) (add_second st k)) [0..timeLimit - 1])"
  by (simp add: predictDamPreciseScoringTotalScore_def predictLoop_closed)

lemma predictionAt_time [simp]: "time (predictionAt rand_r isJst t) = t"
  by (simp add: predictionAt_def Let_def)

lemma predictionAt_scoreType:
  "scoreType (predictionAt rand_r isJst t) =
     scoreTypeOf (totalScoreByDamPreciseScoringFromTime rand_r (unixtimeOf isJst t) None)"
  by (simp add: predictionAt_def Let_def)

lemma predictionAt_scoreInteger:
  "scoreInteger (predictionAt rand_r isJst t) =
     totalScoreByDamPreciseScoringFromTime rand_r (unixtimeOf isJst t) None"
  by (simp add: predictionAt_def Let_def)

lemma unixtimeOf_shift:
  "unixtimeOf isJst t = valueOf t div 1000 + (if isJst then 32400 else 0)"
proof -
  have "(valueOf t + 32400 * 1000) div 1000 = valueOf t div 1000 + 32400"
    using div_mult_self1 [of 1000 "valueOf t" 32400] by simp
  then show ?thesis
    by (simp add: unixtimeOf_def add_hour_def)
qed

lemma length_upto_from_0: "length [0..n - 1] = nat n"
  by simp

text \<open>
  Claim C5.  For a positive \<open>timeLimit\<close> the predictions are at most \<open>timeLimit\<close> many, their
  instants increase strictly along the list, and each record has a score type whose include
  flag was passed as true.
\<close>

theorem predict_length_order_filter:
  assumes "0 < timeLimit"
  shows "int (length (predictDamPreciseScoringTotalScore rand_r st timeLimit isJstArg
                 (Some includeNormal) (Some includeQuadruple) (Some include100))) \<le> timeLimit
    \<and> sorted_wrt (\<lambda>p p'. valueOf (time p) < valueOf (time p'))
          (predictDamPreciseScoringTotalScore rand_r st timeLimit isJstArg
             (Some includeNormal) (Some includeQuadruple) (Some include100))
    \<and> (\<forall>p \<in> set (predictDamPreciseScoringTotalScore rand_r st timeLimit isJstArg
                     (Some includeNormal) (Some includeQuadruple) (Some include100)).
          (scoreType p = Normal \<longrightarrow> includeNormal) \<and>
          (scoreType p = Quadruple \<longrightarrow> includeQuadruple) \<and>
          (scoreType p = Hundred \<longrightarrow> include100))"
proof (intro conjI)
  let ?all = "map (\<lambda>k. predictionAt rand_r (orTrue isJstArg) (add_second st k)) [0..timeLimit - 1]"
  let ?res = "predictDamPreciseScoringTotalScore rand_r st timeLimit isJstArg
                (Some includeNormal) (Some includeQuadruple) (Some include100)"
  have "length ?res \<le> length ?all"
    unfolding predict_closed by (rule length_filter_le)
  also have "\<dots> = nat timeLimit"
    by simp
  finally show "int (length ?res) \<le> timeLimit"
    using assms by simp
  have "sorted_wrt (\<lambda>k k'. valueOf (add_second st k) < valueOf (add_second st k')) [0..timeLimit - 1]"
    using sorted_wrt_upto [of 0 "timeLimit - 1"]
    by (rule sorted_wrt_mono_rel [rotated]) (simp add: add_second_def)
  then have "sorted_wrt (\<lambda>p p'. valueOf (time p) < valueOf (time p')) ?all"
    by (simp add: sorted_wrt_map)
  then show "sorted_wrt (\<lambda>p p'. valueOf (time p) < valueOf (time p')) ?res"
    unfolding predict_closed by (rule sorted_wrt_filter)
  show "\<forall>p \<in> set ?res. (scoreType p = Normal \<longrightarrow> includeNormal) \<and>
          (scoreType p = Quadruple \<longrightarrow> includeQuadruple) \<and>
          (scoreType p = Hundred \<longrightarrow> include100)"
    unfolding predict_closed by (auto simp: included_def orTrue_def)
qed

theorem predict_length_order_filter_witness:
  "(0::int) < 3 \<and>
   predictDamPreciseScoringTotalScore sample_rand_r (Dayjs 1640995260000) 3 (Some False)
      (Some False) (Some True) (Some True) =
     [\<lparr> time = Dayjs 1640995261000, scoreInteger = 100000, scoreString = ''100.000'',
        scoreType = Hundred \<rparr>]
   \<and> int (length (predictDamPreciseScoringTotalScore sample_rand_r (Dayjs 1640995260000) 3 (Some False)
      (Some False) (Some True) (Some True))) \<le> 3
   \<and> sorted_wrt (\<lambda>p p'. valueOf (time p) < valueOf (time p'))
        (predictDamPreciseScoringTotalScore sample_rand_r (Dayjs 1640995260000) 3 (Some False)
           (Some False) (Some True) (Some True))
   \<and> Normal \<notin> scoreType ` set (predictDamPreciseScoringTotalScore sample_rand_r
          (Dayjs 1640995260000) 3 (Some False) (Some False) (Some True) (Some True))"
proof -
  have e: "predictDamPreciseScoringTotalScore sample_rand_r (Dayjs 1640995260000) 3 (Some False)
      (Some False) (Some True) (Some True) =
     [\<lparr> time = Dayjs 1640995261000, scoreInteger = 100000, scoreString = ''100.000'',
        scoreType = Hundred \<rparr>]"
    by code_simp
  from predict_length_order_filter [of 3 sample_rand_r "Dayjs 1640995260000" "Some False" False True True]
  show ?thesis
    unfolding e by simp
qed

text \<open>
  Claim C8.  Every prediction carries the caller's instant \<open>startTime + i\<close> seconds for a
  second \<open>i\<close> of the window, also under JST; the nine hours (32400 seconds) are added to the
  seed of the score only.
\<close>

theorem predict_time_is_caller_instant:
  assumes "p \<in> set (predictDamPreciseScoringTotalScore rand_r st timeLimit isJstArg nArg qArg hArg)"
  shows "\<exists>i. 0 \<le> i \<and> i < timeLimit \<and> time p = add_second st i \<and>
           scoreInteger p = totalScoreByDamPreciseScoringFromTime rand_r
             (valueOf (add_second st i) div 1000 + (if orTrue isJstArg then 32400 else 0)) None"
proof -
  from assms obtain i where i: "i \<in> set [0..timeLimit - 1]"
    and p: "p = predictionAt rand_r (orTrue isJstArg) (add_second st i)"
    unfolding predict_closed by auto
  from i have "0 \<le> i \<and> i < timeLimit" by simp
  moreover from p have "time p = add_second st i" by simp
  moreover from p have "scoreInteger p = totalScoreByDamPreciseScoringFromTime rand_r
      (valueOf (add_second st i) div 1000 + (if orTrue isJstArg then 32400 else 0)) None"
    by (simp only: predictionAt_scoreInteger unixtimeOf_shift)
  ultimately show ?thesis by blast
qed

theorem predict_time_is_caller_instant_witness:
  "\<lparr> time = Dayjs 1640995429000, scoreInteger = 100000, scoreString = ''100.000'',
      scoreType = Hundred \<rparr>
     \<in> set (predictDamPreciseScoringTotalScore sample_rand_r (Dayjs 1640995428000) 3 (Some True)
               (Some False) None None)
   \<and> (\<exists>i. 0 \<le> i \<and> i < 3 \<and> Dayjs 1640995429000 = add_second (Dayjs 1640995428000) i \<and>
          (100000::int) = totalScoreByDamPreciseScoringFromTime sample_rand_r
             (valueOf (add_second (Dayjs 1640995428000) i) div 1000 + 32400) None)"
proof -
  have e: "predictDamPreciseScoringTotalScore sample_rand_r (Dayjs 1640995428000) 3 (Some True)
               (Some False) None None =
      [\<lparr> time = Dayjs 1640995429000, scoreInteger = 100000, scoreString = ''100.000'',
      scoreType = Hundred \<rparr>]"
    by code_simp
  have m: "\<lparr> time = Dayjs 1640995429000, scoreInteger = 100000, scoreString = ''100.000'',
      scoreType = Hundred \<rparr>
     \<in> set (predictDamPreciseScoringTotalScore sample_rand_r (Dayjs 1640995428000) 3 (Some True)
               (Some False) None None)"
    unfolding e by simp
  from predict_time_is_caller_instant [OF m] m show ?thesis
    by (simp add: orTrue_def)
qed

lemma included_all [simp]: "included True True True ty"
  by (cases ty) (simp_all add: included_def)

text \<open>
  Claim C10.  With the four optional flags left out the call is the one with all four flags
  true: every second of the window gives a record (nothing is filtered) and every score is
  seeded with the JST-shifted time.  So a caller who wants UTC seeding has to pass \<open>false\<close>:
  on the one-second window at 2022-01-01T00:00:00Z the default call and the UTC call differ.
\<close>

theorem predict_defaults:
  "predictDamPreciseScoringTotalScore rand_r st timeLimit None None None None =
     predictDamPreciseScoringTotalScore rand_r st timeLimit (Some True) (Some True) (Some True) (Some True)
   \<and> predictDamPreciseScoringTotalScore rand_r st timeLimit None None None None =
       map (\<lambda>i. predictionAt rand_r True (add_second st i)) [0..timeLimit - 1]
   \<and> predictDamPreciseScoringTotalScore sample_rand_r (Dayjs 1640995200000) 1 None None None None \<noteq>
       predictDamPreciseScoringTotalScore sample_rand_r (Dayjs 1640995200000) 1 (Some False) None None None"
proof (intro conjI)
  show "predictDamPreciseScoringTotalScore rand_r st timeLimit None None None None =
     predictDamPreciseScoringTotalScore rand_r st timeLimit (Some True) (Some True) (Some True) (Some True)"
    by (simp add: predictDamPreciseScoringTotalScore_def orTrue_def)
  show "predictDamPreciseScoringTotalScore rand_r st timeLimit None None None None =
       map (\<lambda>i. predictionAt rand_r True (add_second st i)) [0..timeLimit - 1]"
    by (simp add: predict_closed orTrue_def)
  show "predictDamPreciseScoringTotalScore sample_rand_r (Dayjs 1640995200000) 1 None None None None \<noteq>
       predictDamPreciseScoringTotalScore sample_rand_r (Dayjs 1640995200000) 1 (Some False) None None None"
    by code_simp
qed


theorem predict_defaults_witness:
  "predictDamPreciseScoringTotalScore sample_rand_r (Dayjs 1640995200000) 1 None None None None =
     [\<lparr> time = Dayjs 1640995200000, scoreInteger = 99901, scoreString = ''99.901'',
        scoreType = Normal \<rparr>]
   \<and> predictDamPreciseScoringTotalScore sample_rand_r (Dayjs 1640995200000) 1
        (Some True) (Some True) (Some True) (Some True) =
     [\<lparr> time = Dayjs 1640995200000, scoreInteger = 99901, scoreString = ''99.901'',
        scoreType = Normal \<rparr>]
   \<and> predictDamPreciseScoringTotalScore sample_rand_r (Dayjs 1640995200000) 1
        (Some False) None None None =
     [\<lparr> time = Dayjs 1640995200000, scoreInteger = 99618, scoreString = ''99.618'',
        scoreType = Normal \<rparr>]"
proof -
  have e: "predictDamPreciseScoringTotalScore sample_rand_r (Dayjs 1640995200000) 1 None None None None =
     [\<lparr> time = Dayjs 1640995200000, scoreInteger = 99901, scoreString = ''99.901'',
        scoreType = Normal \<rparr>]"
    by code_simp
  have u: "predictDamPreciseScoringTotalScore sample_rand_r (Dayjs 1640995200000) 1
        (Some False) None None None =
     [\<lparr> time = Dayjs 1640995200000, scoreInteger = 99618, scoreString = ''99.618'',
        scoreType = Normal \<rparr>]"
    by code_simp
  from predict_defaults [of sample_rand_r "Dayjs 1640995200000" 1]
  have d: "predictDamPreciseScoringTotalScore sample_rand_r (Dayjs 1640995200000) 1 None None None None =
      predictDamPreciseScoringTotalScore sample_rand_r (Dayjs 1640995200000) 1
        (Some True) (Some True) (Some True) (Some True)"
    by (rule conjunct1)
  from d [symmetric] e u show ?thesis
    by simp
qed

section \<open>Windows that are not valid\<close>

lemma ceil_nonpos: "timeLimit \<le> 0 \<Longrightarrow> 0 < timeSpan \<Longrightarrow> - ((- timeLimit) div timeSpan) \<le> (0::int)"
  by (simp add: pos_imp_zdiv_nonneg_iff)

text \<open>
  Claim C4 states that a window with \<open>timeLimit \<le> 0\<close> or \<open>timeSpan \<le> 0\<close> fails with an
  error.  The service has no check of its window and no error of this kind.  With
  \<open>timeLimit \<le> 0\<close> the loop of the predictions runs no iteration and the result is the
  empty list; so is the result of the counts when \<open>timeSpan\<close> is positive.
\<close>

theorem nonpositive_timeLimit_returns_empty:
  assumes "timeLimit \<le> 0"
  shows "predictDamPreciseScoringTotalScore rand_r st timeLimit isJstArg nArg qArg hArg = []
    \<and> (0 < timeSpan \<longrightarrow>
         countDamPreciseScoringTotalScorePrediction rand_r st timeSpan timeLimit = Some [])"
proof (intro conjI impI)
  show "predictDamPreciseScoringTotalScore rand_r st timeLimit isJstArg nArg qArg hArg = []"
    using assms by (simp add: predict_closed)
  assume "0 < timeSpan"
  with assms have "- ((- timeLimit) div timeSpan) \<le> 0"
    by (rule ceil_nonpos)
  with \<open>0 < timeSpan\<close>
  show "countDamPreciseScoringTotalScorePrediction rand_r st timeSpan timeLimit = Some []"
    by (simp add: countDamPreciseScoringTotalScorePrediction_def js_ceil_div_def countLoop_closed)
qed

theorem nonpositive_timeLimit_returns_empty_witness:
  "(- 5 :: int) \<le> 0
   \<and> predictDamPreciseScoringTotalScore sample_rand_r (Dayjs 1640995200000) (- 5) None None None None = []
   \<and> (0::int) < 10
   \<and> countDamPreciseScoringTotalScorePrediction sample_rand_r (Dayjs 1640995200000) 10 (- 5) = Some []"
  using nonpositive_timeLimit_returns_empty [of "- 5" sample_rand_r "Dayjs 1640995200000" None None None None 10]
  by simp

text \<open>
  Windows that are not valid return like any other: the empty list for a \<open>timeLimit\<close> of
  \<open>0\<close>, three records of spans that run backwards for \<open>timeSpan = - 10\<close> and
  \<open>timeLimit = - 25\<close>.  For \<open>timeSpan = 0\<close> and a positive \<open>timeLimit\<close> the bound of the outer
  loop is \<open>Infinity\<close> and no result is returned.
\<close>

theorem invalid_window_returns_counterexample:
  "predictDamPreciseScoringTotalScore sample_rand_r (Dayjs 1640995200000) 0 None None None None = []
   \<and> countDamPreciseScoringTotalScorePrediction sample_rand_r (Dayjs 1640995200000) 10 0 = Some []
   \<and> countDamPreciseScoringTotalScorePrediction sample_rand_r (Dayjs 1640995200000) (- 10) (- 25) =
       Some [\<lparr> startTime = Dayjs 1640995200000, endTime = Dayjs 1640995190000,
                utc = \<lparr> hundredCount = 0, quadrupleCount = 0 \<rparr>,
                jst = \<lparr> hundredCount = 0, quadrupleCount = 0 \<rparr> \<rparr>,
             \<lparr> startTime = Dayjs 1640995190000, endTime = Dayjs 1640995180000,
                utc = \<lparr> hundredCount = 0, quadrupleCount = 0 \<rparr>,
                jst = \<lparr> hundredCount = 0, quadrupleCount = 0 \<rparr> \<rparr>,
             \<lparr> startTime = Dayjs 1640995180000, endTime = Dayjs 1640995175000,
                utc = \<lparr> hundredCount = 0, quadrupleCount = 0 \<rparr>,
                jst = \<lparr> hundredCount = 0, quadrupleCount = 0 \<rparr> \<rparr>]
   \<and> countDamPreciseScoringTotalScorePrediction sample_rand_r (Dayjs 1640995200000) 0 25 = None"
proof (intro conjI)
  show "predictDamPreciseScoringTotalScore sample_rand_r (Dayjs 1640995200000) 0 None None None None = []"
    by code_simp
  show "countDamPreciseScoringTotalScorePrediction sample_rand_r (Dayjs 1640995200000) 10 0 = Some []"
    by code_simp
  show "countDamPreciseScoringTotalScorePrediction sample_rand_r (Dayjs 1640995200000) (- 10) (- 25) =
       Some [\<lparr> startTime = Dayjs 1640995200000, endTime = Dayjs 1640995190000,
                utc = \<lparr> hundredCount = 0, quadrupleCount = 0 \<rparr>,
                jst = \<lparr> hundredCount = 0, quadrupleCount = 0 \<rparr> \<rparr>,
             \<lparr> startTime = Dayjs 1640995190000, endTime = Dayjs 1640995180000,
                utc = \<lparr> hundredCount = 0, quadrupleCount = 0 \<rparr>,
                jst = \<lparr> hundredCount = 0, quadrupleCount = 0 \<rparr> \<rparr>,
             \<lparr> startTime = Dayjs 1640995180000, endTime = Dayjs 1640995175000,
                utc = \<lparr> hundredCount = 0, quadrupleCount = 0 \<rparr>,
                jst = \<lparr> hundredCount = 0, quadrupleCount = 0 \<rparr> \<rparr>]"
    by code_simp
  show "countDamPreciseScoringTotalScorePrediction sample_rand_r (Dayjs 1640995200000) 0 25 = None"
    by (simp add: countDamPreciseScoringTotalScorePrediction_def js_ceil_div_def countLoop_unbounded)
qed

section \<open>Properties of the counts\<close>

lemma add_second_add_second: "add_second (add_second t a) b = add_second t (a + b)"
  by (simp add: add_second_def algebra_simps)

lemma scoreTypeOf_Hundred: "scoreTypeOf s = Hundred \<longleftrightarrow> s = 100000"
  by (simp add: scoreTypeOf_def)

lemma scoreTypeOf_Quadruple:
  "scoreTypeOf s = Quadruple \<longleftrightarrow> damPreciseScoringTotalScore100PointsThreshold < s \<and> s \<noteq> 100000"
  by (simp add: scoreTypeOf_def)

lemma countSecond_hundredCountUtc:
  "hundredCountUtc (countSecond rand_r lst j c) = hundredCountUtc c + typeAt rand_r False lst Hundred j"
  by (simp add: countSecond_def Let_def typeAt_def unixtimeOf_def scoreTypeOf_Hundred scoreTypeOf_Quadruple)

lemma countSecond_quadrupleCountUtc:
  "quadrupleCountUtc (countSecond rand_r lst j c) = quadrupleCountUtc c + typeAt rand_r False lst Quadruple j"
  by (simp add: countSecond_def Let_def typeAt_def unixtimeOf_def scoreTypeOf_Hundred scoreTypeOf_Quadruple)

lemma countSecond_hundredCountJst:
  "hundredCountJst (countSecond rand_r lst j c) = hundredCountJst c + typeAt rand_r True lst Hundred j"
  by (simp add: countSecond_def Let_def typeAt_def unixtimeOf_def scoreTypeOf_Hundred scoreTypeOf_Quadruple)

lemma countSecond_quadrupleCountJst:
  "quadrupleCountJst (countSecond rand_r lst j c) = quadrupleCountJst c + typeAt rand_r True lst Quadruple j"
  by (simp add: countSecond_def Let_def typeAt_def unixtimeOf_def scoreTypeOf_Hundred scoreTypeOf_Quadruple)

lemma countSeconds_counter:
  fixes sel :: "counters \<Rightarrow> nat"
  assumes step: "\<And>j c. sel (countSecond rand_r lst j c) = sel c + g j"
  shows "sel (countSeconds rand_r lst lts j c) = sel c + sum_list (map g [j..lts - 1])"
proof (induction "nat (lts - j)" arbitrary: j c)
  case 0
  then show ?case by (subst countSeconds.simps) simp
next
  case (Suc m)
  then have lt: "j < lts" and m: "m = nat (lts - (j + 1))" by auto
  have u: "[j..lts - 1] = j # [j + 1..lts - 1]"
    using lt by (simp add: upto_rec1)
  show ?case
    using lt Suc.hyps(1) [OF m]
    by (subst countSeconds.simps) (simp add: u step)
qed

lemma typeAt_shift: "typeAt rand_r isJst (add_second st a) ty j = typeAt rand_r isJst st ty (a + j)"
  by (simp add: typeAt_def add_second_add_second)

lemma map_shift_upto: "map (\<lambda>j. a + j) [0..n - 1] = [a..a + n - 1]"
proof (induction "nat n" arbitrary: n)
  case 0
  then show ?case by simp
next
  case (Suc m)
  then have n: "0 < n" and m: "m = nat (n - 1)" by auto
  have "[0..n - 1] = [0..n - 1 - 1] @ [n - 1]"
    using n by (simp add: upto_rec2)
  moreover have "[a..a + n - 1] = [a..a + (n - 1) - 1] @ [a + n - 1]"
    using n upto_rec2 [of a "a + n - 1"] by (simp add: algebra_simps)
  ultimately show ?case
    using Suc.hyps(1) [OF m] by (simp add: algebra_simps)
qed

lemma sum_list_shift:
  "sum_list (map (\<lambda>j. g (a + j)) [0..n - 1]) = sum_list (map g [a..a + n - 1])"
proof -
  have "map (\<lambda>j. g (a + j)) [0..n - 1] = map g (map (\<lambda>j. a + j) [0..n - 1])"
    by simp
  then show ?thesis
    by (simp only: map_shift_upto)
qed

lemma ceil_span:
  fixes timeSpan timeLimit :: int
  assumes "0 < timeSpan" and "0 < timeLimit"
  shows "0 < - ((- timeLimit) div timeSpan)"
    and "(- ((- timeLimit) div timeSpan) - 1) * timeSpan < timeLimit"
    and "timeLimit \<le> - ((- timeLimit) div timeSpan) * timeSpan"
proof -
  let ?q = "timeLimit div timeSpan" and ?r = "timeLimit mod timeSpan"
  have n: "- ((- timeLimit) div timeSpan) = (if ?r = 0 then ?q else ?q + 1)"
    using assms by (simp add: zdiv_zminus1_eq_if)
  have e: "timeLimit = ?q * timeSpan + ?r"
    by simp
  have r: "0 \<le> ?r" "?r < timeSpan"
    using assms by simp_all
  have q: "0 \<le> ?q"
    using assms by (simp add: pos_imp_zdiv_nonneg_iff)
  show "0 < - ((- timeLimit) div timeSpan)"
  proof (cases "?r = 0")
    case True
    with e assms have "?q \<noteq> 0" by auto
    with q True n show ?thesis by simp
  next
    case False
    with q n show ?thesis by simp
  qed
  show "(- ((- timeLimit) div timeSpan) - 1) * timeSpan < timeLimit"
  proof (cases "?r = 0")
    case True
    then have "(?q - 1) * timeSpan = timeLimit - timeSpan"
      using e by (simp add: algebra_simps)
    with assms n True show ?thesis by simp
  next
    case False
    with r have "0 < ?r" by simp
    then have "?q * timeSpan < timeLimit"
      using e by linarith
    with n False show ?thesis by simp
  qed
  show "timeLimit \<le> - ((- timeLimit) div timeSpan) * timeSpan"
  proof (cases "?r = 0")
    case True
    with n e show ?thesis by simp
  next
    case False
    have "(?q + 1) * timeSpan = ?q * timeSpan + timeSpan"
      by (simp add: algebra_simps)
    with e r have "timeLimit \<le> (?q + 1) * timeSpan" by linarith
    with n False show ?thesis by simp
  qed
qed

lemma localTimeSpanOf_pos:
  assumes "0 < timeSpan" and "0 \<le> timeLimit"
  shows "localTimeSpanOf timeSpan timeLimit (Finite n) i =
           (if i = n - 1 \<and> timeLimit mod timeSpan \<noteq> 0 then timeLimit mod timeSpan else timeSpan)"
  using assms by (simp add: localTimeSpanOf_def js_rem_def smod_mod_positive)

lemma localTimeSpanOf_min:
  assumes ts: "0 < timeSpan" and tl: "0 < timeLimit"
    and i: "0 \<le> i" "i < - ((- timeLimit) div timeSpan)"
  shows "localTimeSpanOf timeSpan timeLimit (Finite (- ((- timeLimit) div timeSpan))) i =
           min timeSpan (timeLimit - i * timeSpan)"
proof -
  let ?n = "- ((- timeLimit) div timeSpan)"
  let ?q = "timeLimit div timeSpan" and ?r = "timeLimit mod timeSpan"
  have n: "?n = (if ?r = 0 then ?q else ?q + 1)"
    using ts by (simp add: zdiv_zminus1_eq_if)
  have e: "timeLimit = ?q * timeSpan + ?r"
    by simp
  have r: "0 \<le> ?r" "?r < timeSpan"
    using ts by simp_all
  show ?thesis
  proof (cases "i = ?n - 1")
    case True
    show ?thesis
    proof (cases "?r = 0")
      case True
      with \<open>i = ?n - 1\<close> n have "i = ?q - 1" by simp
      then have "i * timeSpan = ?q * timeSpan - timeSpan"
        by (simp add: left_diff_distrib)
      with e True have "timeLimit - i * timeSpan = timeSpan" by simp
      with True ts tl show ?thesis
        by (simp add: localTimeSpanOf_pos)
    next
      case False
      with \<open>i = ?n - 1\<close> n have "i = ?q" by simp
      then have "timeLimit - i * timeSpan = ?r"
        by (simp add: minus_div_mult_eq_mod)
      with False r \<open>i = ?n - 1\<close> ts tl show ?thesis
        by (simp add: localTimeSpanOf_pos)
    qed
  next
    case False
    with i have "i + 1 \<le> ?n - 1" by simp
    then have "(i + 1) * timeSpan \<le> (?n - 1) * timeSpan"
      using ts by (simp only: mult_right_mono)
    also have "\<dots> < timeLimit"
      using ts tl by (rule ceil_span)
    finally have "timeSpan \<le> timeLimit - i * timeSpan"
      by (simp add: algebra_simps)
    with False ts tl show ?thesis
      by (simp add: localTimeSpanOf_pos)
  qed
qed

lemma typeAt_shift_fun:
  "typeAt rand_r isJst (add_second st a) ty = (\<lambda>j. typeAt rand_r isJst st ty (a + j))"
  by (rule ext) (rule typeAt_shift)

lemma startTime_countSpan:
  "startTime (countSpan rand_r st timeSpan timeLimit timeSpans i) = add_second st (i * timeSpan)"
  by (simp add: countSpan_def Let_def)

lemma endTime_countSpan:
  "endTime (countSpan rand_r st timeSpan timeLimit timeSpans i) =
     add_second st (i * timeSpan + localTimeSpanOf timeSpan timeLimit timeSpans i)"
  by (simp add: countSpan_def Let_def add_second_add_second)

lemma count_countSpan:
  "hundredCount (utc (countSpan rand_r st timeSpan timeLimit timeSpans i)) =
     sum_list (map (typeAt rand_r False st Hundred)
       [i * timeSpan..i * timeSpan + localTimeSpanOf timeSpan timeLimit timeSpans i - 1])"
  "quadrupleCount (utc (countSpan rand_r st timeSpan timeLimit timeSpans i)) =
     sum_list (map (typeAt rand_r False st Quadruple)
       [i * timeSpan..i * timeSpan + localTimeSpanOf timeSpan timeLimit timeSpans i - 1])"
  "hundredCount (jst (countSpan rand_r st timeSpan timeLimit timeSpans i)) =
     sum_list (map (typeAt rand_r True st Hundred)
       [i * timeSpan..i * timeSpan + localTimeSpanOf timeSpan timeLimit timeSpans i - 1])"
  "quadrupleCount (jst (countSpan rand_r st timeSpan timeLimit timeSpans i)) =
     sum_list (map (typeAt rand_r True st Quadruple)
       [i * timeSpan..i * timeSpan + localTimeSpanOf timeSpan timeLimit timeSpans i - 1])"
  by (simp_all add: countSpan_def Let_def
      countSeconds_counter [where sel = hundredCountUtc, OF countSecond_hundredCountUtc]
      countSeconds_counter [where sel = quadrupleCountUtc, OF countSecond_quadrupleCountUtc]
      countSeconds_counter [where sel = hundredCountJst, OF countSecond_hundredCountJst]
      countSeconds_counter [where sel = quadrupleCountJst, OF countSecond_quadrupleCountJst]
      typeAt_shift_fun sum_list_shift)

lemma span_sums:
  fixes g :: "int \<Rightarrow> nat"
  assumes ts: "0 < timeSpan" and tl: "0 < timeLimit"
  shows "int m * timeSpan < timeLimit + timeSpan \<Longrightarrow>
         sum_list (map (\<lambda>i. sum_list (map g [i * timeSpan..i * timeSpan + min timeSpan (timeLimit - i * timeSpan) - 1]))
                    [0..int m - 1]) =
         sum_list (map g [0..min (int m * timeSpan) timeLimit - 1])"
proof (induction m)
  case 0
  with tl show ?case by simp
next
  case (Suc m)
  let ?a = "int m * timeSpan"
  from Suc.prems have lt: "?a < timeLimit"
    by (simp add: algebra_simps)
  then have "?a < timeLimit + timeSpan"
    using ts by simp
  note IH = Suc.IH [OF this]
  have idx: "[0..int (Suc m) - 1] = [0..int m - 1] @ [int m]"
    using upto_rec2 [of 0 "int m"] by simp
  have hi: "?a + min timeSpan (timeLimit - ?a) = min (int (Suc m) * timeSpan) timeLimit"
    by (simp add: algebra_simps min_def)
  have "0 \<le> ?a"
    using ts by simp
  moreover have "?a \<le> min (int (Suc m) * timeSpan) timeLimit - 1"
    using lt ts by (simp add: algebra_simps min_def)
  ultimately have split: "[0..min (int (Suc m) * timeSpan) timeLimit - 1] =
      [0..?a - 1] @ [?a..min (int (Suc m) * timeSpan) timeLimit - 1]"
    by (rule upto_split1)
  have lo: "min ?a timeLimit = ?a"
    using lt by simp
  show ?case
    unfolding idx split
    using IH by (simp add: hi lo)
qed

lemma length_filter_map_sum:
  "length (filter P xs) = sum_list (map (\<lambda>x. if P x then 1 else 0) xs)"
  by (induction xs) simp_all

lemma windowTally_sums:
  "hundredCount (windowTally rand_r isJst st timeLimit) =
     sum_list (map (typeAt rand_r isJst st Hundred) [0..timeLimit - 1])"
  "quadrupleCount (windowTally rand_r isJst st timeLimit) =
     sum_list (map (typeAt rand_r isJst st Quadruple) [0..timeLimit - 1])"
  by (simp_all add: windowTally_def Let_def length_filter_map_sum typeAt_def [abs_def] comp_def)

lemma count_closed:
  assumes "timeSpan \<noteq> 0"
  shows "countDamPreciseScoringTotalScorePrediction rand_r st timeSpan timeLimit =
     Some (map (countSpan rand_r st timeSpan timeLimit (Finite (- ((- timeLimit) div timeSpan))))
             [0..- ((- timeLimit) div timeSpan) - 1])"
  using assms
  by (simp add: countDamPreciseScoringTotalScorePrediction_def js_ceil_div_def countLoop_closed)

lemma count_total:
  fixes g :: "int \<Rightarrow> nat"
  assumes ts: "0 < timeSpan" and tl: "0 < timeLimit"
    and sel: "\<And>i. f i = sum_list (map g [i * timeSpan..i * timeSpan +
                 localTimeSpanOf timeSpan timeLimit (Finite (- ((- timeLimit) div timeSpan))) i - 1])"
  shows "sum_list (map f [0..- ((- timeLimit) div timeSpan) - 1]) = sum_list (map g [0..timeLimit - 1])"
proof -
  let ?n = "- ((- timeLimit) div timeSpan)"
  let ?h = "\<lambda>i. sum_list (map g [i * timeSpan..i * timeSpan + min timeSpan (timeLimit - i * timeSpan) - 1])"
  have n: "0 < ?n" "(?n - 1) * timeSpan < timeLimit" "timeLimit \<le> ?n * timeSpan"
    using ts tl by (rule ceil_span)+
  have m: "int (nat ?n) = ?n"
    using n(1) by simp
  have "map f [0..?n - 1] = map ?h [0..?n - 1]"
    by (rule map_cong [OF refl]) (simp add: sel localTimeSpanOf_min [OF ts tl])
  then have "sum_list (map f [0..?n - 1]) = sum_list (map ?h [0..int (nat ?n) - 1])"
    by (simp only: m)
  also have "\<dots> = sum_list (map g [0..min (int (nat ?n) * timeSpan) timeLimit - 1])"
  proof (rule span_sums [OF ts tl])
    show "int (nat ?n) * timeSpan < timeLimit + timeSpan"
      unfolding m using n(2) by (simp add: algebra_simps)
  qed
  also have "min (int (nat ?n) * timeSpan) timeLimit = timeLimit"
    unfolding m using n(3) by (rule min_absorb2)
  finally show ?thesis .
qed

text \<open>
  Claim C6.  For positive \<open>timeSpan\<close> and \<open>timeLimit\<close> the counts are returned, one record
  for each of the \<open>\<lceil>timeLimit / timeSpan\<rceil>\<close> spans; record \<open>k\<close> starts \<open>k * timeSpan\<close> seconds
  after the start, and ends \<open>timeSpan\<close> seconds later, but the last one
  \<open>timeLimit mod timeSpan\<close> seconds later when this remainder is not \<open>0\<close>.  With
  \<open>timeSpan = 10\<close> and \<open>timeLimit = 25\<close> there are three records, whose bounds in
  milliseconds after the start are 0 to 10000, 10000 to 20000 and 20000 to 25000.
\<close>

theorem count_spans:
  assumes ts: "0 < timeSpan" and tl: "0 < timeLimit"
  shows "\<exists>rs. countDamPreciseScoringTotalScorePrediction rand_r st timeSpan timeLimit = Some rs
    \<and> int (length rs) = \<lceil>real_of_int timeLimit / real_of_int timeSpan\<rceil>
    \<and> (\<forall>k < length rs.
          startTime (rs ! k) = add_second st (int k * timeSpan) \<and>
          endTime (rs ! k) = add_second (startTime (rs ! k))
             (if Suc k = length rs \<and> timeLimit mod timeSpan \<noteq> 0
              then timeLimit mod timeSpan else timeSpan))
    \<and> (timeSpan = 10 \<and> timeLimit = 25 \<longrightarrow>
          map (\<lambda>r. (valueOf (startTime r) - valueOf st, valueOf (endTime r) - valueOf st)) rs =
            [(0, 10000), (10000, 20000), (20000, 25000)])"
proof -
  let ?n = "- ((- timeLimit) div timeSpan)"
  let ?cs = "countSpan rand_r st timeSpan timeLimit (Finite ?n)"
  let ?rs = "map ?cs [0..?n - 1]"
  have c: "countDamPreciseScoringTotalScorePrediction rand_r st timeSpan timeLimit = Some ?rs"
    using ts by (simp add: count_closed)
  have n: "0 < ?n"
    using ts tl by (rule ceil_span)
  have len: "length ?rs = nat ?n"
    by simp
  have "int (length ?rs) = \<lceil>real_of_int timeLimit / real_of_int timeSpan\<rceil>"
    using n by (simp add: ceiling_divide_eq_div)
  moreover have "\<forall>k < length ?rs.
          startTime (?rs ! k) = add_second st (int k * timeSpan) \<and>
          endTime (?rs ! k) = add_second (startTime (?rs ! k))
             (if Suc k = length ?rs \<and> timeLimit mod timeSpan \<noteq> 0
              then timeLimit mod timeSpan else timeSpan)"
  proof (intro allI impI)
    fix k
    assume "k < length ?rs"
    then have k: "int k < ?n" by simp
    then have nth: "?rs ! k = ?cs (int k)"
      by (simp add: nth_upto)
    have last: "Suc k = length ?rs \<longleftrightarrow> int k = ?n - 1"
      using n by auto
    show "startTime (?rs ! k) = add_second st (int k * timeSpan) \<and>
          endTime (?rs ! k) = add_second (startTime (?rs ! k))
             (if Suc k = length ?rs \<and> timeLimit mod timeSpan \<noteq> 0
              then timeLimit mod timeSpan else timeSpan)"
      unfolding nth last
      using ts tl
      by (simp add: startTime_countSpan endTime_countSpan localTimeSpanOf_pos add_second_add_second)
  qed
  moreover have "timeSpan = 10 \<and> timeLimit = 25 \<longrightarrow>
          map (\<lambda>r. (valueOf (startTime r) - valueOf st, valueOf (endTime r) - valueOf st)) ?rs =
            [(0, 10000), (10000, 20000), (20000, 25000)]"
  proof
    assume "timeSpan = 10 \<and> timeLimit = 25"
    then have v: "timeSpan = 10" "timeLimit = 25" by simp_all
    have u: "[0..(2::int)] = [0, 1, 2]"
      by code_simp
    show "map (\<lambda>r. (valueOf (startTime r) - valueOf st, valueOf (endTime r) - valueOf st)) ?rs =
            [(0, 10000), (10000, 20000), (20000, 25000)]"
      unfolding v
      by (simp add: u startTime_countSpan endTime_countSpan localTimeSpanOf_pos add_second_def)
  qed
  ultimately show ?thesis
    using c by (intro exI [of _ ?rs] conjI)
qed

theorem count_spans_witness:
  "(0::int) < 10 \<and> (0::int) < 25
   \<and> countDamPreciseScoringTotalScorePrediction sample_rand_r (Dayjs 1640995255000) 10 25 =
       Some [\<lparr> startTime = Dayjs 1640995255000, endTime = Dayjs 1640995265000,
                utc = \<lparr> hundredCount = 1, quadrupleCount = 0 \<rparr>,
                jst = \<lparr> hundredCount = 0, quadrupleCount = 0 \<rparr> \<rparr>,
             \<lparr> startTime = Dayjs 1640995265000, endTime = Dayjs 1640995275000,
                utc = \<lparr> hundredCount = 0, quadrupleCount = 0 \<rparr>,
                jst = \<lparr> hundredCount = 0, quadrupleCount = 0 \<rparr> \<rparr>,
             \<lparr> startTime = Dayjs 1640995275000, endTime = Dayjs 1640995280000,
                utc = \<lparr> hundredCount = 0, quadrupleCount = 0 \<rparr>,
                jst = \<lparr> hundredCount = 0, quadrupleCount = 0 \<rparr> \<rparr>]
   \<and> \<lceil>real_of_int 25 / real_of_int 10\<rceil> = 3
   \<and> (25::int) mod 10 = 5"
proof -
  have e: "countDamPreciseScoringTotalScorePrediction sample_rand_r (Dayjs 1640995255000) 10 25 =
       Some [\<lparr> startTime = Dayjs 1640995255000, endTime = Dayjs 1640995265000,
                utc = \<lparr> hundredCount = 1, quadrupleCount = 0 \<rparr>,
                jst = \<lparr> hundredCount = 0, quadrupleCount = 0 \<rparr> \<rparr>,
             \<lparr> startTime = Dayjs 1640995265000, endTime = Dayjs 1640995275000,
                utc = \<lparr> hundredCount = 0, quadrupleCount = 0 \<rparr>,
                jst = \<lparr> hundredCount = 0, quadrupleCount = 0 \<rparr> \<rparr>,
             \<lparr> startTime = Dayjs 1640995275000, endTime = Dayjs 1640995280000,
                utc = \<lparr> hundredCount = 0, quadrupleCount = 0 \<rparr>,
                jst = \<lparr> hundredCount = 0, quadrupleCount = 0 \<rparr> \<rparr>]"
    by code_simp
  from count_spans [of 10 25 sample_rand_r "Dayjs 1640995255000"] obtain rs
    where "countDamPreciseScoringTotalScorePrediction sample_rand_r (Dayjs 1640995255000) 10 25 = Some rs"
      and "int (length rs) = \<lceil>real_of_int 25 / real_of_int 10\<rceil>"
    by auto
  with e have "\<lceil>real_of_int 25 / real_of_int 10\<rceil> = (3::int)"
    by auto
  with e show ?thesis
    by simp
qed

text \<open>
  Claim C7.  For positive \<open>timeSpan\<close> and \<open>timeLimit\<close>, the counts of the spans add up to the
  tally of the whole window taken in one pass: for \<open>hundredCount\<close> and for
  \<open>quadrupleCount\<close>, under UTC and under JST.
\<close>

theorem count_sums_equal_window_tally:
  assumes "0 < timeSpan" and "0 < timeLimit"
  shows "\<exists>rs. countDamPreciseScoringTotalScorePrediction rand_r st timeSpan timeLimit = Some rs
    \<and> sum_list (map (\<lambda>r. hundredCount (utc r)) rs) = hundredCount (windowTally rand_r False st timeLimit)
    \<and> sum_list (map (\<lambda>r. quadrupleCount (utc r)) rs) = quadrupleCount (windowTally rand_r False st timeLimit)
    \<and> sum_list (map (\<lambda>r. hundredCount (jst r)) rs) = hundredCount (windowTally rand_r True st timeLimit)
    \<and> sum_list (map (\<lambda>r. quadrupleCount (jst r)) rs) = quadrupleCount (windowTally rand_r True st timeLimit)"
proof -
  let ?n = "- ((- timeLimit) div timeSpan)"
  let ?cs = "countSpan rand_r st timeSpan timeLimit (Finite ?n)"
  have c: "countDamPreciseScoringTotalScorePrediction rand_r st timeSpan timeLimit =
      Some (map ?cs [0..?n - 1])"
    using assms by (simp add: count_closed)
  have "sum_list (map (\<lambda>i. hundredCount (utc (?cs i))) [0..?n - 1]) =
      sum_list (map (typeAt rand_r False st Hundred) [0..timeLimit - 1])"
    using assms by (rule count_total) (rule count_countSpan)
  moreover have "sum_list (map (\<lambda>i. quadrupleCount (utc (?cs i))) [0..?n - 1]) =
      sum_list (map (typeAt rand_r False st Quadruple) [0..timeLimit - 1])"
    using assms by (rule count_total) (rule count_countSpan)
  moreover have "sum_list (map (\<lambda>i. hundredCount (jst (?cs i))) [0..?n - 1]) =
      sum_list (map (typeAt rand_r True st Hundred) [0..timeLimit - 1])"
    using assms by (rule count_total) (rule count_countSpan)
  moreover have "sum_list (map (\<lambda>i. quadrupleCount (jst (?cs i))) [0..?n - 1]) =
      sum_list (map (typeAt rand_r True st Quadruple) [0..timeLimit - 1])"
    using assms by (rule count_total) (rule count_countSpan)
  ultimately show ?thesis
    unfolding c by (simp add: windowTally_sums comp_def)
qed

theorem count_sums_equal_window_tally_witness:
  "(0::int) < 20 \<and> (0::int) < 45
   \<and> countDamPreciseScoringTotalScorePrediction sample_rand_r (Dayjs 1640995260000) 20 45 =
       Some [\<lparr> startTime = Dayjs 1640995260000, endTime = Dayjs 1640995280000,
                utc = \<lparr> hundredCount = 1, quadrupleCount = 0 \<rparr>,
                jst = \<lparr> hundredCount = 0, quadrupleCount = 0 \<rparr> \<rparr>,
             \<lparr> startTime = Dayjs 1640995280000, endTime = Dayjs 1640995300000,
                utc = \<lparr> hundredCount = 0, quadrupleCount = 0 \<rparr>,
                jst = \<lparr> hundredCount = 0, quadrupleCount = 1 \<rparr> \<rparr>,
             \<lparr> startTime = Dayjs 1640995300000, endTime = Dayjs 1640995305000,
                utc = \<lparr> hundredCount = 0, quadrupleCount = 0 \<rparr>,
                jst = \<lparr> hundredCount = 0, quadrupleCount = 0 \<rparr> \<rparr>]
   \<and> hundredCount (windowTally sample_rand_r False (Dayjs 1640995260000) 45) = 1
   \<and> quadrupleCount (windowTally sample_rand_r False (Dayjs 1640995260000) 45) = 0
   \<and> hundredCount (windowTally sample_rand_r True (Dayjs 1640995260000) 45) = 0
   \<and> quadrupleCount (windowTally sample_rand_r True (Dayjs 1640995260000) 45) = 1"
proof -
  have e: "countDamPreciseScoringTotalScorePrediction sample_rand_r (Dayjs 1640995260000) 20 45 =
       Some [\<lparr> startTime = Dayjs 1640995260000, endTime = Dayjs 1640995280000,
                utc = \<lparr> hundredCount = 1, quadrupleCount = 0 \<rparr>,
                jst = \<lparr> hundredCount = 0, quadrupleCount = 0 \<rparr> \<rparr>,
             \<lparr> startTime = Dayjs 1640995280000, endTime = Dayjs 1640995300000,
                utc = \<lparr> hundredCount = 0, quadrupleCount = 0 \<rparr>,
                jst = \<lparr> hundredCount = 0, quadrupleCount = 1 \<rparr> \<rparr>,
             \<lparr> startTime = Dayjs 1640995300000, endTime = Dayjs 1640995305000,
                utc = \<lparr> hundredCount = 0, quadrupleCount = 0 \<rparr>,
                jst = \<lparr> hundredCount = 0, quadrupleCount = 0 \<rparr> \<rparr>]"
    by code_simp
  from count_sums_equal_window_tally [of 20 45 sample_rand_r "Dayjs 1640995260000"] e
  show ?thesis
    by simp
qed

end
